theory Spec2Isabelle
  imports Main
begin

section \<open>JavaScript values used by the lobby page\<close>

text \<open>
  The lobby page (\<^verbatim>\<open>src/frontend/src/app/lobby/[code]/page.tsx\<close>) works on arrays, on
  values that may be \<^verbatim>\<open>undefined\<close> or \<^verbatim>\<open>null\<close>, and on the truthiness of strings.
  An absent value is \<open>None\<close>; the array operations return what JavaScript returns on an
  empty array (\<^verbatim>\<open>undefined\<close>) instead of an unspecified HOL value.
\<close>

text \<open>\<^verbatim>\<open>xs.pop()\<close> read for its result: the last element, \<^verbatim>\<open>undefined\<close> on an empty array.\<close>

definition pop :: "'a list \<Rightarrow> 'a option" where
  "pop xs = (if xs = [] then None else Some (last xs))"

text \<open>\<^verbatim>\<open>xs[0]\<close>: the first element, \<^verbatim>\<open>undefined\<close> on an empty array.\<close>

definition index0 :: "'a list \<Rightarrow> 'a option" where
  "index0 xs = (case xs of [] \<Rightarrow> None | x # _ \<Rightarrow> Some x)"

text \<open>\<^verbatim>\<open>a || b\<close> where \<^verbatim>\<open>a\<close> is an object or \<^verbatim>\<open>undefined\<close>: objects are truthy.\<close>

definition or_else :: "'a option \<Rightarrow> 'a option \<Rightarrow> 'a option" where
  "or_else a b = (case a of Some x \<Rightarrow> Some x | None \<Rightarrow> b)"

text \<open>Truthiness of a \<^verbatim>\<open>string | null\<close>: \<^verbatim>\<open>null\<close> and the empty string are falsy.\<close>

definition truthy :: "string option \<Rightarrow> bool" where
  "truthy s = (case s of None \<Rightarrow> False | Some v \<Rightarrow> v \<noteq> [])"

text \<open>
  A string is held as its UTF-8 encoding: a \<open>char\<close> is one byte, and a character beyond
  ASCII is the two or three bytes that encode it.
\<close>





section \<open>Data model\<close>

text \<open>
  \<^verbatim>\<open>MemberInfo\<close> and \<^verbatim>\<open>LobbyData\<close> are the interfaces of page.tsx. \<^verbatim>\<open>member_count\<close> is a
  count sent by the server, a natural number; \<^verbatim>\<open>status\<close> is a plain string in the source
  and is compared with string literals.
\<close>

record MemberInfo =
  user_name :: string
  is_ready :: bool

record LobbyData =
  lobby_id :: string
  lobby_code :: string
  business_id :: string
  leader_name :: string
  status :: string
  member_count :: nat
  members :: "MemberInfo list"
  created_at :: string
  expires_at :: string

text \<open>\<^verbatim>\<open>User\<close> of AuthContext.tsx.\<close>

record User =
  id' :: string
  name :: string

text \<open>
  Both tier tables are arrays of objects with a \<^verbatim>\<open>size\<close> field: the entries of
  \<^verbatim>\<open>DISCOUNT_TIERS\<close> (page.tsx) and \<^verbatim>\<open>PricingTier\<close> (data/businesses). The common field
  is the root of both records; it is written \<open>size'\<close> because \<open>size\<close> is a constant of HOL.
\<close>

record Sized =
  size' :: nat

record DiscountTier = Sized +
  discount :: nat
  label :: string

record PricingTier = Sized +
  pricePerPerson :: nat
  discountLabel :: string

text \<open>
  \<^verbatim>\<open>BusinessListing\<close> with the fields the lobby page reads. \<open>bid\<close> and \<open>bname\<close> are the
  fields \<^verbatim>\<open>id\<close> and \<^verbatim>\<open>name\<close>, renamed because \<open>User\<close> has fields of these names too;
  \<^verbatim>\<open>pricingTiers\<close> is optional in the interface.
\<close>

record BusinessListing =
  bid :: string
  bname :: string
  category :: string
  imageUrl :: string
  pricingTiers :: "PricingTier list option"

definition DISCOUNT_TIERS :: "DiscountTier list" where
  "DISCOUNT_TIERS =
    [\<lparr>size' = 2, discount = 0, label = ''Standard''\<rparr>,
     \<lparr>size' = 4, discount = 20, label = ''20% rabatt''\<rparr>,
     \<lparr>size' = 6, discount = 30, label = ''30% rabatt''\<rparr>,
     \<lparr>size' = 8, discount = 40, label = ''Beste pris!''\<rparr>]"

definition MOCK_BUSINESSES :: "BusinessListing list" where
  "MOCK_BUSINESSES =
    [\<lparr>bid = ''1'', bname = ''Strike Zone Bowling'', category = ''Aktivitet'',
      imageUrl = ''https://placehold.co/600x400?text=Bowling'',
      pricingTiers = Some
       [\<lparr>size' = 2, pricePerPerson = 250, discountLabel = ''Standard''\<rparr>,
        \<lparr>size' = 4, pricePerPerson = 200, discountLabel = ''20% rabatt''\<rparr>,
        \<lparr>size' = 6, pricePerPerson = 175, discountLabel = ''30% rabatt''\<rparr>,
        \<lparr>size' = 8, pricePerPerson = 150, discountLabel = ''Beste pris!''\<rparr>]\<rparr>,
     \<lparr>bid = ''2'', bname = ''Luigi's Wood Fired Pizza'', category = ''Restaurant'',
      imageUrl = ''https://placehold.co/600x400?text=Pizza'',
      pricingTiers = Some
       [\<lparr>size' = 2, pricePerPerson = 350, discountLabel = ''Standard''\<rparr>,
        \<lparr>size' = 4, pricePerPerson = 325, discountLabel = ''Gratis drikke''\<rparr>,
        \<lparr>size' = 6, pricePerPerson = 300, discountLabel = ''Gratis forrett''\<rparr>,
        \<lparr>size' = 10, pricePerPerson = 275, discountLabel = ''VIP-pakke!''\<rparr>]\<rparr>,
     \<lparr>bid = ''3'', bname = ''Velocity Go-Karting'', category = ''Adrenalin'',
      imageUrl = ''https://placehold.co/600x400?text=Go-Karts'',
      pricingTiers = Some
       [\<lparr>size' = 2, pricePerPerson = 500, discountLabel = ''Standard''\<rparr>,
        \<lparr>size' = 4, pricePerPerson = 450, discountLabel = ''50 kr rabatt''\<rparr>,
        \<lparr>size' = 8, pricePerPerson = 400, discountLabel = ''100 kr rabatt''\<rparr>,
        \<lparr>size' = 12, pricePerPerson = 350, discountLabel = ''Beste pris!''\<rparr>]\<rparr>,
     \<lparr>bid = ''4'', bname = ''The Escape Room Complex'', category = ''Aktivitet'',
      imageUrl = ''https://placehold.co/600x400?text=Escape+Room'',
      pricingTiers = Some
       [\<lparr>size' = 2, pricePerPerson = 400, discountLabel = ''Standard''\<rparr>,
        \<lparr>size' = 3, pricePerPerson = 350, discountLabel = ''12% rabatt''\<rparr>,
        \<lparr>size' = 5, pricePerPerson = 320, discountLabel = ''20% rabatt''\<rparr>,
        \<lparr>size' = 6, pricePerPerson = 300, discountLabel = ''Fullt rom-rabatt!''\<rparr>]\<rparr>]"

text \<open>\<^verbatim>\<open>getBusinessById\<close>: \<^verbatim>\<open>MOCK_BUSINESSES.find((business) => business.id === id)\<close>.\<close>

definition getBusinessById :: "string \<Rightarrow> BusinessListing option" where
  "getBusinessById i = find (\<lambda>business. bid business = i) MOCK_BUSINESSES"

section \<open>Discount tier engine\<close>

text \<open>
  The current tier is computed in place at three places of page.tsx, always as
  \<^verbatim>\<open>DISCOUNT_TIERS.filter(t => count >= t.size).pop() || DISCOUNT_TIERS[0]\<close>
  (ProgressBar, the confirmed screen, the business card). \<open>currentTierIn\<close> is that
  expression with the table as a parameter, \<open>currentTier\<close> the expression itself.
\<close>

definition currentTierIn :: "DiscountTier list \<Rightarrow> nat \<Rightarrow> DiscountTier option" where
  "currentTierIn tiers currentCount =
     or_else (pop (filter (\<lambda>t. currentCount \<ge> size' t) tiers)) (index0 tiers)"

definition currentTier :: "nat \<Rightarrow> DiscountTier option" where
  "currentTier currentCount = currentTierIn DISCOUNT_TIERS currentCount"

text \<open>\<^verbatim>\<open>DISCOUNT_TIERS.find(t => t.size > currentCount)\<close> of ProgressBar.\<close>

definition nextTier :: "nat \<Rightarrow> DiscountTier option" where
  "nextTier currentCount = find (\<lambda>t. size' t > currentCount) DISCOUNT_TIERS"

text \<open>
  The discount of the "member joined" toast (fetchLobbyData):
  \<^verbatim>\<open>const currentTier = DISCOUNT_TIERS.filter(t => data.member_count >= t.size).pop();\<close>
  \<^verbatim>\<open>const discount = currentTier?.discount || 0;\<close>
  There is no fall-back tier here: an absent tier and a discount of 0 both give 0.
\<close>

definition toastDiscount :: "nat \<Rightarrow> nat" where
  "toastDiscount count =
     (case pop (filter (\<lambda>t. count \<ge> size' t) DISCOUNT_TIERS) of
        None \<Rightarrow> 0
      | Some t \<Rightarrow> (if discount t = 0 then 0 else discount t))"

text \<open>
  The price tier of the business card (normal lobby screen):
  \<^verbatim>\<open>const baseTier = business.pricingTiers?.[0];\<close>
  \<^verbatim>\<open>const currentPriceTier = business.pricingTiers?.find(t => t.size <= lobby.member_count) || baseTier;\<close>
\<close>

definition baseTier :: "BusinessListing \<Rightarrow> PricingTier option" where
  "baseTier business = (case pricingTiers business of None \<Rightarrow> None | Some ts \<Rightarrow> index0 ts)"

definition currentPriceTier :: "BusinessListing \<Rightarrow> nat \<Rightarrow> PricingTier option" where
  "currentPriceTier business count =
     or_else (case pricingTiers business of
                None \<Rightarrow> None
              | Some ts \<Rightarrow> find (\<lambda>t. size' t \<le> count) ts)
             (baseTier business)"

section \<open>Page state, HTTP and notifications\<close>

text \<open>
  The toasts of the functions modelled below. The texts of the source are fixed apart from
  the two values the "member joined" toast interpolates
  (\<^verbatim>\<open>`... ${newMemberName} ble med! Rabatt: ${discount}%`\<close>); the name is \<open>None\<close> where
  the source interpolates \<^verbatim>\<open>undefined\<close>.
\<close>

datatype toast =
    MemberJoined "string option" nat
  | GroupLocked
  | JoinedGroup
  | JoinFailed
  | LeftGroup

text \<open>
  The HTTP requests of the functions modelled below: \<^verbatim>\<open>GET /lobbies/{code}\<close> and
  \<^verbatim>\<open>POST /lobbies/{code}/join\<close> with the \<^verbatim>\<open>user_name\<close> of its body.
\<close>

datatype request =
    GetLobby string
  | PostJoin string string

text \<open>
  What \<^verbatim>\<open>await fetch(...)\<close> gives: the promise is rejected (with the message of the
  exception), or there is a response with a status, whose \<^verbatim>\<open>json()\<close> either throws
  (\<open>Inl\<close> the message) or gives the body.
\<close>

datatype 'a response =
    Rejected string
  | Response nat "string + 'a"

text \<open>\<^verbatim>\<open>response.ok\<close>: the status is in the range 200 to 299.\<close>

definition ok :: "nat \<Rightarrow> bool" where
  "ok s = (200 \<le> s \<and> s \<le> 299)"

text \<open>
  The state of \<^verbatim>\<open>LobbyPage\<close>: its \<^verbatim>\<open>useState\<close> cells and its two refs, the identity
  of the auth context, the browser's \<^verbatim>\<open>localStorage\<close>, and what has left the page so
  far (toasts shown, requests sent, the route pushed).
\<close>

record PageState =
  lobby :: "LobbyData option"
  isLoading :: bool
  error :: "string option"
  hasJoined :: bool
  prevMemberCountRef :: nat
  prevStatusRef :: string
  user :: "User option"
  localStorage :: "string \<rightharpoonup> string"
  toasts :: "toast list"
  requests :: "request list"
  route :: string

definition ACTIVE_LOBBY :: string where
  "ACTIVE_LOBBY = ''groupie_active_lobby''"

definition ACTIVE_BUSINESS_ID :: string where
  "ACTIVE_BUSINESS_ID = ''groupie_active_business_id''"

definition STORAGE_KEY :: string where
  "STORAGE_KEY = ''groupie_user''"

text \<open>
  The state at mount: \<^verbatim>\<open>useState(null)\<close>, \<^verbatim>\<open>useState(true)\<close>, \<^verbatim>\<open>useState(null)\<close>,
  \<^verbatim>\<open>useState(false)\<close>, \<^verbatim>\<open>useRef(0)\<close>, \<^verbatim>\<open>useRef('')\<close>; identity, storage and route
  are what the browser holds.
\<close>

definition mountPage :: "User option \<Rightarrow> (string \<rightharpoonup> string) \<Rightarrow> string \<Rightarrow> PageState" where
  "mountPage u ls r =
     \<lparr>lobby = None, isLoading = True, error = None, hasJoined = False,
      prevMemberCountRef = 0, prevStatusRef = [], user = u, localStorage = ls,
      toasts = [], requests = [], route = r\<rparr>"

section \<open>Lobby fetch and reconciliation\<close>

text \<open>\<^verbatim>\<open>data.members[data.members.length - 1]?.user_name\<close>\<close>

definition newMemberName :: "LobbyData \<Rightarrow> string option" where
  "newMemberName data = map_option user_name (pop (members data))"

text \<open>
  The body of the \<^verbatim>\<open>try\<close> block of \<^verbatim>\<open>fetchLobbyData\<close> after \<^verbatim>\<open>response.json()\<close> has given
  \<^verbatim>\<open>data\<close>: the two notifications, the two refs, the active-lobby pointer, then
  \<^verbatim>\<open>setLobby(data); setError(null)\<close>.
\<close>

definition reconcile :: "LobbyData \<Rightarrow> PageState \<Rightarrow> PageState" where
  "reconcile data st =
     (let joined =
            (if prevMemberCountRef st > 0 \<and> member_count data > prevMemberCountRef st
             then [MemberJoined (newMemberName data) (toastDiscount (member_count data))]
             else []);
          locked =
            (if prevStatusRef st = ''OPEN'' \<and> status data = ''LOCKED''
             then [GroupLocked] else []);
          ls1 =
            (if status data = ''OPEN''
             then (localStorage st)(ACTIVE_LOBBY \<mapsto> lobby_code data,
                                    ACTIVE_BUSINESS_ID \<mapsto> business_id data)
             else localStorage st);
          ls2 =
            (if status data = ''EXPIRED'' \<or> status data = ''CONFIRMED''
             then ls1(ACTIVE_LOBBY := None, ACTIVE_BUSINESS_ID := None)
             else ls1)
      in st\<lparr>toasts := toasts st @ joined @ locked,
            prevMemberCountRef := member_count data,
            prevStatusRef := status data,
            localStorage := ls2,
            lobby := Some data,
            error := None\<rparr>)"

text \<open>The \<^verbatim>\<open>catch\<close> block of \<^verbatim>\<open>fetchLobbyData\<close>.\<close>

definition fetchCaught :: "PageState \<Rightarrow> PageState" where
  "fetchCaught st = st\<lparr>error := Some ''Kunne ikke koble til serveren.''\<rparr>"

text \<open>
  \<^verbatim>\<open>fetchLobbyData\<close>, with the outcome of the request as an argument. Without a lobby code
  it returns before the \<^verbatim>\<open>try\<close>, so nothing is sent and \<^verbatim>\<open>isLoading\<close> keeps its value;
  otherwise the \<^verbatim>\<open>finally\<close> block ends every path with \<^verbatim>\<open>setIsLoading(false)\<close>.
\<close>

definition fetchLobbyData :: "string option \<Rightarrow> LobbyData response \<Rightarrow> PageState \<Rightarrow> PageState" where
  "fetchLobbyData lobbyCode resp st =
     (if \<not> truthy lobbyCode then st
      else
        let st1 = st\<lparr>requests := requests st @ [GetLobby (the lobbyCode)]\<rparr>;
            st2 =
              (case resp of
                 Rejected msg \<Rightarrow> fetchCaught st1
               | Response s body \<Rightarrow>
                   if \<not> ok s then
                     (if s = 404 then st1\<lparr>error := Some ''Lobbyen ble ikke funnet.''\<rparr>
                      else fetchCaught st1)
                   else
                     (case body of
                        Inl msg \<Rightarrow> fetchCaught st1
                      | Inr data \<Rightarrow> reconcile data st1))
        in st2\<lparr>isLoading := False\<rparr>)"

section \<open>View-state gate\<close>

text \<open>The props \<^verbatim>\<open>LobbyPage\<close> passes to \<^verbatim>\<open>JoinGate\<close>.\<close>

record JoinGateProps =
  lobbyCode :: "string option"
  leaderName :: string
  businessName :: "string option"
  isLoggedIn :: bool
  userName :: "string option"

text \<open>
  The business panel of the normal screen: the empty-lobby call to action when
  \<^verbatim>\<open>getBusinessById\<close> finds nothing, else the card with the current discount tier and the
  current price tier.
\<close>

datatype card =
    EmptyLobbyState
  | BusinessCard BusinessListing "DiscountTier option" "PricingTier option"

text \<open>
  The top-level screens, in the order of the \<^verbatim>\<open>return\<close> statements of \<^verbatim>\<open>LobbyPage\<close>.
  The not-found screen has no argument: its markup reads neither \<^verbatim>\<open>error\<close> nor
  \<^verbatim>\<open>lobby\<close>. The confirmed screen carries the group size and the tier its price is
  computed from.
\<close>

datatype screen =
    LoadingScreen
  | NotFoundScreen
  | JoinGateScreen JoinGateProps
  | ConfirmedScreen nat "DiscountTier option"
  | NormalScreen card

text \<open>\<^verbatim>\<open>user && lobby.members.some(m => m.user_name === user.name)\<close>\<close>

definition isUserInLobby :: "User option \<Rightarrow> LobbyData \<Rightarrow> bool" where
  "isUserInLobby u l =
     (case u of None \<Rightarrow> False
      | Some v \<Rightarrow> list_ex (\<lambda>m. user_name m = name v) (members l))"

definition businessCard :: "LobbyData \<Rightarrow> card" where
  "businessCard l =
     (case getBusinessById (business_id l) of
        None \<Rightarrow> EmptyLobbyState
      | Some business \<Rightarrow>
          BusinessCard business (currentTier (member_count l))
            (currentPriceTier business (member_count l)))"

text \<open>
  One render of \<^verbatim>\<open>LobbyPage\<close>: the screen returned, and the state after it, because the
  error branch removes the active-lobby pointer from \<^verbatim>\<open>localStorage\<close> while rendering
  (\<^verbatim>\<open>savedLobby === lobbyCode\<close>, where \<^verbatim>\<open>getItem\<close> gives \<^verbatim>\<open>null\<close> for a missing key and
  \<^verbatim>\<open>lobbyCode\<close> may be \<^verbatim>\<open>undefined\<close>, which are different values).
\<close>

definition render :: "string option \<Rightarrow> PageState \<Rightarrow> screen \<times> PageState" where
  "render code st =
     (if isLoading st then (LoadingScreen, st)
      else if truthy (error st) \<or> lobby st = None then
        (NotFoundScreen,
         if code \<noteq> None \<and> localStorage st ACTIVE_LOBBY = code
         then st\<lparr>localStorage :=
                   (localStorage st)(ACTIVE_LOBBY := None, ACTIVE_BUSINESS_ID := None)\<rparr>
         else st)
      else
        (case lobby st of
           None \<Rightarrow> (NotFoundScreen, st)
         | Some l \<Rightarrow>
             if \<not> isUserInLobby (user st) l \<and> \<not> hasJoined st then
               (JoinGateScreen
                  \<lparr>lobbyCode = code, leaderName = leader_name l,
                   businessName = map_option bname (getBusinessById (business_id l)),
                   isLoggedIn = (user st \<noteq> None),
                   userName = map_option name (user st)\<rparr>, st)
             else if status l = ''CONFIRMED'' then
               (ConfirmedScreen (member_count l) (currentTier (member_count l)), st)
             else (NormalScreen (businessCard l), st)))"

section \<open>Join and leave\<close>









text \<open>
  The click handler of the "Forlat gruppe" button; \<open>confirmed\<close> is what \<^verbatim>\<open>confirm(...)\<close>
  returned.
\<close>

definition leaveGroup :: "bool \<Rightarrow> PageState \<Rightarrow> PageState" where
  "leaveGroup confirmed st =
     (if confirmed
      then st\<lparr>localStorage :=
                (localStorage st)(ACTIVE_LOBBY := None, ACTIVE_BUSINESS_ID := None),
              toasts := toasts st @ [LeftGroup],
              route := ''/''\<rparr>
      else st)"

section \<open>Polling\<close>

text \<open>
  One poll tick as the user sees it: \<^verbatim>\<open>fetchLobbyData\<close> completes with the given outcome
  and the page renders again. \<open>pollAll\<close> runs the ticks of a list of outcomes in order.
\<close>

definition pollTick :: "string option \<Rightarrow> PageState \<Rightarrow> LobbyData response \<Rightarrow> PageState" where
  "pollTick code st resp = snd (render code (fetchLobbyData code resp st))"

definition pollAll :: "string option \<Rightarrow> LobbyData response list \<Rightarrow> PageState \<Rightarrow> PageState" where
  "pollAll code resps st = foldl (pollTick code) st resps"

section \<open>Countdown\<close>

text \<open>
  The \<^verbatim>\<open>useState\<close> cells of \<^verbatim>\<open>CountdownTimer\<close> and the number of calls of \<^verbatim>\<open>onExpired\<close>
  so far. Times are milliseconds since the epoch, as \<^verbatim>\<open>getTime()\<close> and \<^verbatim>\<open>Date.now()\<close>
  give them; \<open>div\<close> on \<open>int\<close> rounds down as \<^verbatim>\<open>Math.floor\<close> does.
\<close>

record CountdownState =
  timeRemaining :: int
  isExpired :: bool
  onExpiredCalls :: nat

definition mountCountdown :: CountdownState where
  "mountCountdown = \<lparr>timeRemaining = 0, isExpired = False, onExpiredCalls = 0\<rparr>"

text \<open>
  \<^verbatim>\<open>calculateRemaining\<close>; \<open>closureIsExpired\<close> is the value of \<^verbatim>\<open>isExpired\<close> the closure
  captured when its effect ran.
\<close>

definition calculateRemaining :: "int \<Rightarrow> bool \<Rightarrow> int \<Rightarrow> CountdownState \<Rightarrow> CountdownState" where
  "calculateRemaining expires closureIsExpired now st =
     (let remaining = max 0 ((expires - now) div 1000);
          st1 = st\<lparr>timeRemaining := remaining\<rparr>
      in if remaining = 0 \<and> \<not> closureIsExpired
         then st1\<lparr>isExpired := True, onExpiredCalls := Suc (onExpiredCalls st1)\<rparr>
         else st1)"

text \<open>
  The effect has \<^verbatim>\<open>isExpired\<close> among its dependencies: after a step that changed it the
  effect runs again (the old interval is cleared, \<^verbatim>\<open>calculateRemaining()\<close> is called once
  with the new closure, a new interval starts). \<open>ranWith\<close> is the value the last effect
  ran with.
\<close>

definition rerunEffect :: "int \<Rightarrow> int \<Rightarrow> bool \<Rightarrow> CountdownState \<Rightarrow> CountdownState" where
  "rerunEffect expires now ranWith st =
     (if isExpired st \<noteq> ranWith then calculateRemaining expires (isExpired st) now st
      else st)"

text \<open>Mount at time \<open>now\<close>: the effect runs with the initial state.\<close>

definition countdownMount :: "int \<Rightarrow> int \<Rightarrow> CountdownState" where
  "countdownMount expires now =
     rerunEffect expires now False (calculateRemaining expires False now mountCountdown)"

text \<open>One tick of the 1000 ms interval at time \<open>now\<close>.\<close>

definition countdownTick :: "int \<Rightarrow> CountdownState \<Rightarrow> int \<Rightarrow> CountdownState" where
  "countdownTick expires st now =
     rerunEffect expires now (isExpired st)
       (calculateRemaining expires (isExpired st) now st)"

definition countdownRun :: "int \<Rightarrow> int \<Rightarrow> int list \<Rightarrow> CountdownState" where
  "countdownRun expires t0 ticks = foldl (countdownTick expires) (countdownMount expires t0) ticks"

text \<open>
  What the component returns: the expired badge when \<^verbatim>\<open>isExpired\<close>, else minutes,
  seconds and the urgent flag (\<^verbatim>\<open>timeRemaining < 300\<close>).
\<close>

datatype countdownShown =
    ExpiredBadge
  | Clock int int bool

definition countdownView :: "CountdownState \<Rightarrow> countdownShown" where
  "countdownView st =
     (if isExpired st then ExpiredBadge
      else Clock (timeRemaining st div 60) (timeRemaining st mod 60) (timeRemaining st < 300))"

section \<open>Vocabulary of the properties\<close>

text \<open>The snapshot a lobby read delivers, if it delivers one.\<close>

fun snapshotOf :: "LobbyData response \<Rightarrow> LobbyData option" where
  "snapshotOf (Response s (Inr d)) = (if ok s then Some d else None)"
| "snapshotOf (Response s (Inl msg)) = None"
| "snapshotOf (Rejected msg) = None"

text \<open>The statuses of the snapshots a list of lobby reads delivers, in order.\<close>

fun statuses :: "LobbyData response list \<Rightarrow> string list" where
  "statuses [] = []"
| "statuses (r # rs) =
     (case snapshotOf r of None \<Rightarrow> statuses rs | Some d \<Rightarrow> status d # statuses rs)"

text \<open>
  The number of steps from OPEN to LOCKED in a sequence of statuses that starts after
  the status \<open>prev\<close>.
\<close>

fun lockedEdges :: "string \<Rightarrow> string list \<Rightarrow> nat" where
  "lockedEdges prev [] = 0"
| "lockedEdges prev (s # ss) =
     (if prev = ''OPEN'' \<and> s = ''LOCKED'' then 1 else 0) + lockedEdges s ss"

text \<open>The toasts shown between two states of the page.\<close>

definition emitted :: "PageState \<Rightarrow> PageState \<Rightarrow> toast list" where
  "emitted st st' = drop (length (toasts st)) (toasts st')"

fun isMemberJoined :: "toast \<Rightarrow> bool" where
  "isMemberJoined (MemberJoined n d) = True"
| "isMemberJoined t = False"

text \<open>Whether a countdown step at time \<open>now\<close> computes zero remaining seconds.\<close>

definition reachesZero :: "int \<Rightarrow> int \<Rightarrow> bool" where
  "reachesZero expires now = (max 0 ((expires - now) div 1000) = 0)"

text \<open>The requests sent between two states of the page.\<close>

definition sent :: "PageState \<Rightarrow> PageState \<Rightarrow> request list" where
  "sent st st' = drop (length (requests st)) (requests st')"


section \<open>Test data\<close>

definition someMembers :: "MemberInfo list" where
  "someMembers =
     [\<lparr>user_name = ''Kari'', is_ready = True\<rparr>,
      \<lparr>user_name = ''Per'', is_ready = False\<rparr>,
      \<lparr>user_name = ''Nils'', is_ready = False\<rparr>,
      \<lparr>user_name = ''Eva'', is_ready = False\<rparr>,
      \<lparr>user_name = ''Liv'', is_ready = False\<rparr>]"

text \<open>A lobby ABC123 led by Kari with the given business, status and first \<open>n\<close> members.\<close>

definition lobbyWith :: "string \<Rightarrow> string \<Rightarrow> nat \<Rightarrow> LobbyData" where
  "lobbyWith b s n =
     \<lparr>lobby_id = ''7'', lobby_code = ''ABC123'', business_id = b, leader_name = ''Kari'',
      status = s, member_count = n, members = take n someMembers,
      created_at = ''2025-01-01T12:00:00Z'', expires_at = ''2025-01-01T12:30:00Z''\<rparr>"

definition kari :: User where
  "kari = \<lparr>id' = ''user_1'', name = ''Kari''\<rparr>"

text \<open>The page for ABC123 at mount, for the given identity and stored pointer.\<close>

definition pageAtMount :: "User option \<Rightarrow> string option \<Rightarrow> PageState" where
  "pageAtMount u pointer =
     mountPage u (case pointer of None \<Rightarrow> Map.empty
                  | Some c \<Rightarrow> [ACTIVE_LOBBY \<mapsto> c, ACTIVE_BUSINESS_ID \<mapsto> ''1''])
       ''/lobby/ABC123''"

text \<open>The page for ABC123 after its first lobby read has completed with the given outcome.\<close>

definition pageAfter :: "User option \<Rightarrow> string option \<Rightarrow> LobbyData response \<Rightarrow> PageState" where
  "pageAfter u pointer resp = fetchLobbyData (Some ''ABC123'') resp (pageAtMount u pointer)"




text \<open>A lobby read answered with status 200 and the given snapshot.\<close>

definition okResp :: "LobbyData \<Rightarrow> LobbyData response" where
  "okResp d = Response 200 (Inr d)"

section \<open>Discount tier engine: properties\<close>

lemma sorted_map_le_last:
  "sorted (map f xs) \<Longrightarrow> x \<in> set xs \<Longrightarrow> (f x :: nat) \<le> f (last xs)"
  by (induction xs) auto

lemma filter_map_sorted:
  "sorted (map f xs) \<Longrightarrow> sorted (map (f :: 'a \<Rightarrow> nat) (filter P xs))"
  by (induction xs) auto

lemma currentTierIn_none:
  "filter (\<lambda>t. size' t \<le> n) tiers = [] \<Longrightarrow> currentTierIn tiers n = index0 tiers"
  by (simp add: currentTierIn_def pop_def or_else_def)

lemma currentTierIn_some:
  "filter (\<lambda>t. size' t \<le> n) tiers \<noteq> [] \<Longrightarrow>
   currentTierIn tiers n = Some (last (filter (\<lambda>t. size' t \<le> n) tiers))"
  by (simp add: currentTierIn_def pop_def or_else_def)

lemma sorted_DISCOUNT_TIERS: "sorted (map size' DISCOUNT_TIERS)"
  by (simp add: DISCOUNT_TIERS_def)

lemma currentTier_total: "\<exists>t. currentTier n = Some t \<and> toastDiscount n = discount t"
  by (simp add: currentTier_def currentTierIn_def toastDiscount_def DISCOUNT_TIERS_def
      pop_def or_else_def index0_def)

text \<open>
  C6. Over an ascending, non-empty tier table and for every member count \<open>n\<close>, the current
  tier exists and belongs to the table. When some tier has \<open>size \<le> n\<close> it is the last such
  tier of the table, and no qualifying tier has a greater size; when none qualifies it is
  the first tier of the table. On \<^verbatim>\<open>DISCOUNT_TIERS\<close> with \<open>n = 5\<close> it is the tier of size 4
  with 20 percent. The discount of the "member joined" toast, computed without the
  fall-back, is the discount of the current tier for every count.
\<close>

theorem currentTier_last_qualifying_or_floor:
  assumes asc: "sorted (map size' tiers)" and ne: "tiers \<noteq> []"
  shows "(\<exists>t. currentTierIn tiers n = Some t \<and> t \<in> set tiers \<and>
           (if list_ex (\<lambda>u. size' u \<le> n) tiers
            then t = last (filter (\<lambda>u. size' u \<le> n) tiers) \<and> size' t \<le> n \<and>
                 list_all (\<lambda>u. size' u \<le> n \<longrightarrow> size' u \<le> size' t) tiers
            else t = hd tiers)) \<and>
         currentTier 5 = Some \<lparr>size' = 4, discount = 20, label = ''20% rabatt''\<rparr> \<and>
         (\<exists>t. currentTier n = Some t \<and> toastDiscount n = discount t)"
proof (intro conjI)
  show "currentTier 5 = Some \<lparr>size' = 4, discount = 20, label = ''20% rabatt''\<rparr>"
    by (simp add: currentTier_def currentTierIn_def DISCOUNT_TIERS_def pop_def or_else_def)
next
  show "\<exists>t. currentTier n = Some t \<and> toastDiscount n = discount t"
    by (rule currentTier_total)
next
  show "\<exists>t. currentTierIn tiers n = Some t \<and> t \<in> set tiers \<and>
           (if list_ex (\<lambda>u. size' u \<le> n) tiers
            then t = last (filter (\<lambda>u. size' u \<le> n) tiers) \<and> size' t \<le> n \<and>
                 list_all (\<lambda>u. size' u \<le> n \<longrightarrow> size' u \<le> size' t) tiers
            else t = hd tiers)"
  proof (cases "filter (\<lambda>t. size' t \<le> n) tiers = []")
    case True
    then have no: "\<not> list_ex (\<lambda>u. size' u \<le> n) tiers"
      by (auto simp: list_ex_iff filter_empty_conv)
    from ne have "index0 tiers = Some (hd tiers)"
      by (cases tiers) (simp_all add: index0_def)
    with True no ne show ?thesis
      by (simp add: currentTierIn_none)
  next
    case False
    let ?q = "filter (\<lambda>u. size' u \<le> n) tiers"
    let ?t = "last ?q"
    have mem: "?t \<in> set ?q" using False by (rule last_in_set)
    have "set ?q \<subseteq> {u \<in> set tiers. size' u \<le> n}" by auto
    with mem have in_tiers: "?t \<in> set tiers" and le: "size' ?t \<le> n" by blast+
    have ex: "list_ex (\<lambda>u. size' u \<le> n) tiers"
      using in_tiers le by (auto simp: list_ex_iff)
    have sq: "sorted (map size' ?q)" using asc by (rule filter_map_sorted)
    have mx: "list_all (\<lambda>u. size' u \<le> n \<longrightarrow> size' u \<le> size' ?t) tiers"
      unfolding list_all_iff
    proof (intro ballI impI)
      fix u assume "u \<in> set tiers" "size' u \<le> n"
      then have "u \<in> set ?q" by simp
      with sq show "size' u \<le> size' ?t" by (rule sorted_map_le_last)
    qed
    from False in_tiers le ex mx show ?thesis
      by (simp add: currentTierIn_some)
  qed
qed

theorem currentTier_last_qualifying_or_floor_witness:
  "sorted (map size' DISCOUNT_TIERS) \<and> DISCOUNT_TIERS \<noteq> [] \<and>
   currentTierIn DISCOUNT_TIERS 5 = Some \<lparr>size' = 4, discount = 20, label = ''20% rabatt''\<rparr> \<and>
   currentTierIn DISCOUNT_TIERS 1 = Some \<lparr>size' = 2, discount = 0, label = ''Standard''\<rparr>"
proof -
  have a: "sorted (map size' DISCOUNT_TIERS)" by (rule sorted_DISCOUNT_TIERS)
  have b: "DISCOUNT_TIERS \<noteq> []" by (simp add: DISCOUNT_TIERS_def)
  show ?thesis
    using a b currentTier_last_qualifying_or_floor [OF a b, of 5]
      currentTier_last_qualifying_or_floor [OF a b, of 1]
    by (auto simp: DISCOUNT_TIERS_def)
qed

text \<open>
  The price tier of the business card. On a table in ascending order of size the first
  tier with \<open>size \<le> n\<close> is the first tier of the table whenever any tier qualifies, and the
  fall-back is the first tier too: the card shows the base price for every member count.
\<close>

lemma find_le_sorted_hd:
  assumes "sorted (map size' ts)" and "find (\<lambda>t. size' t \<le> n) ts = Some t"
  shows "t = hd ts"
proof (cases ts)
  case Nil
  with assms(2) show ?thesis by simp
next
  case (Cons a list)
  show ?thesis
  proof (cases "size' a \<le> n")
    case True
    with Cons assms(2) show ?thesis by simp
  next
    case False
    with Cons assms(2) have f: "find (\<lambda>t. size' t \<le> n) list = Some t" by simp
    then have "t \<in> set list" and "size' t \<le> n"
      by (auto simp: find_Some_iff)
    moreover from assms(1) Cons have "\<forall>x\<in>set list. size' a \<le> size' x" by simp
    ultimately have "size' a \<le> n" by fastforce
    with False show ?thesis by simp
  qed
qed

lemma currentPriceTier_always_base:
  assumes "pricingTiers business = Some ts" and "sorted (map size' ts)"
  shows "currentPriceTier business n = index0 ts"
proof (cases "find (\<lambda>t. size' t \<le> n) ts")
  case None
  with assms show ?thesis by (simp add: currentPriceTier_def baseTier_def or_else_def)
next
  case (Some t)
  with assms(2) have "t = hd ts" by (rule find_le_sorted_hd)
  moreover from Some have "ts \<noteq> []" by auto
  ultimately have "index0 ts = Some t" by (cases ts) (simp_all add: index0_def)
  with Some assms show ?thesis by (simp add: currentPriceTier_def or_else_def)
qed

text \<open>
  C1. The business card of a lobby for business 1 (price tiers of sizes 2, 4, 6, 8) with
  five members: the discount badge is the tier of size 4, and the price tier is the tier
  of size 2 with 250 kr, not the tier of size 4 with 200 kr.
\<close>

theorem price_tier_of_five_members:
  "businessCard (lobbyWith ''1'' ''OPEN'' 5) =
     BusinessCard (hd MOCK_BUSINESSES)
       (Some \<lparr>size' = 4, discount = 20, label = ''20% rabatt''\<rparr>)
       (Some \<lparr>size' = 2, pricePerPerson = 250, discountLabel = ''Standard''\<rparr>) \<and>
   map_option (map size') (pricingTiers (hd MOCK_BUSINESSES)) = Some [2, 4, 6, 8]"
  by (simp add: businessCard_def lobbyWith_def getBusinessById_def MOCK_BUSINESSES_def
      currentTier_def currentTierIn_def DISCOUNT_TIERS_def pop_def or_else_def
      currentPriceTier_def baseTier_def index0_def)

section \<open>Lobby fetch and reconciliation: properties\<close>

lemma render_keeps:
  "toasts (snd (render code st)) = toasts st"
  "prevStatusRef (snd (render code st)) = prevStatusRef st"
  "prevMemberCountRef (snd (render code st)) = prevMemberCountRef st"
  "requests (snd (render code st)) = requests st"
  "user (snd (render code st)) = user st"
  by (simp_all add: render_def split: option.splits)

lemma not_ok_404 [simp]: "\<not> ok 404"
  by (simp add: ok_def)

lemma fetch_no_code: "\<not> truthy code \<Longrightarrow> fetchLobbyData code resp st = st"
  by (simp add: fetchLobbyData_def)

lemma fetch_snapshot:
  "truthy code \<Longrightarrow> snapshotOf resp = Some d \<Longrightarrow>
   fetchLobbyData code resp st =
     (reconcile d (st\<lparr>requests := requests st @ [GetLobby (the code)]\<rparr>))\<lparr>isLoading := False\<rparr>"
  by (cases resp rule: snapshotOf.cases)
     (auto simp add: fetchLobbyData_def Let_def split: if_splits)

lemma fetch_failed:
  assumes "snapshotOf resp = None"
  shows "toasts (fetchLobbyData code resp st) = toasts st"
    and "prevStatusRef (fetchLobbyData code resp st) = prevStatusRef st"
    and "prevMemberCountRef (fetchLobbyData code resp st) = prevMemberCountRef st"
    and "lobby (fetchLobbyData code resp st) = lobby st"
  using assms
  by (cases resp rule: snapshotOf.cases;
      simp add: fetchLobbyData_def fetchCaught_def Let_def split: if_splits)+

lemma reconcile_fields:
  "toasts (reconcile d st) = toasts st @
     (if prevMemberCountRef st > 0 \<and> member_count d > prevMemberCountRef st
      then [MemberJoined (newMemberName d) (toastDiscount (member_count d))] else []) @
     (if prevStatusRef st = ''OPEN'' \<and> status d = ''LOCKED'' then [GroupLocked] else [])"
  "prevStatusRef (reconcile d st) = status d"
  "prevMemberCountRef (reconcile d st) = member_count d"
  "lobby (reconcile d st) = Some d"
  "error (reconcile d st) = None"
  by (simp_all add: reconcile_def Let_def)

lemma pollTick_failed:
  assumes "snapshotOf resp = None"
  shows "toasts (pollTick code st resp) = toasts st"
    and "prevStatusRef (pollTick code st resp) = prevStatusRef st"
    and "prevMemberCountRef (pollTick code st resp) = prevMemberCountRef st"
  using assms by (simp_all add: pollTick_def render_keeps fetch_failed)

lemma pollTick_snapshot:
  assumes "truthy code" "snapshotOf resp = Some d"
  shows "toasts (pollTick code st resp) = toasts st @
     (if prevMemberCountRef st > 0 \<and> member_count d > prevMemberCountRef st
      then [MemberJoined (newMemberName d) (toastDiscount (member_count d))] else []) @
     (if prevStatusRef st = ''OPEN'' \<and> status d = ''LOCKED'' then [GroupLocked] else [])"
    and "prevStatusRef (pollTick code st resp) = status d"
    and "prevMemberCountRef (pollTick code st resp) = member_count d"
  using assms by (simp_all add: pollTick_def render_keeps fetch_snapshot reconcile_fields)

lemma pollAll_Cons: "pollAll code (r # rs) st = pollAll code rs (pollTick code st r)"
  by (simp add: pollAll_def)

lemma pollAll_locked_count:
  "truthy code \<Longrightarrow>
   count_list (toasts (pollAll code rs st)) GroupLocked =
     count_list (toasts st) GroupLocked + lockedEdges (prevStatusRef st) (statuses rs)"
proof (induction rs arbitrary: st)
  case Nil
  then show ?case by (simp add: pollAll_def)
next
  case (Cons r rs)
  have step: "count_list (toasts (pollAll code (r # rs) st)) GroupLocked =
      count_list (toasts (pollTick code st r)) GroupLocked +
      lockedEdges (prevStatusRef (pollTick code st r)) (statuses rs)"
    unfolding pollAll_Cons using Cons.prems by (rule Cons.IH)
  show ?case
  proof (cases "snapshotOf r")
    case None
    then have "statuses (r # rs) = statuses rs" by simp
    with None step show ?thesis
      by (simp only: pollTick_failed)
  next
    case (Some d)
    then have s: "statuses (r # rs) = status d # statuses rs" by simp
    have t: "count_list (toasts (pollTick code st r)) GroupLocked =
       count_list (toasts st) GroupLocked +
       (if prevStatusRef st = ''OPEN'' \<and> status d = ''LOCKED'' then 1 else 0)"
      using Cons.prems Some by (simp add: pollTick_snapshot(1))
    have p: "prevStatusRef (pollTick code st r) = status d"
      using Cons.prems Some by (rule pollTick_snapshot(2))
    show ?thesis
      unfolding step s t p by simp
  qed
qed

lemma newMemberName_last:
  "newMemberName d = (if members d = [] then None else Some (user_name (last (members d))))"
  by (simp add: newMemberName_def pop_def)

lemma fetch_emitted_snapshot:
  assumes "truthy code" "snapshotOf resp = Some d"
  shows "emitted st (fetchLobbyData code resp st) =
     (if prevMemberCountRef st > 0 \<and> member_count d > prevMemberCountRef st
      then [MemberJoined (newMemberName d) (toastDiscount (member_count d))] else []) @
     (if prevStatusRef st = ''OPEN'' \<and> status d = ''LOCKED'' then [GroupLocked] else [])"
  using assms by (simp add: emitted_def fetch_snapshot reconcile_fields)

lemma pollAll_failed:
  "list_all (\<lambda>r. snapshotOf r = None) fails \<Longrightarrow>
   toasts (pollAll code fails st) = toasts st \<and>
   prevMemberCountRef (pollAll code fails st) = prevMemberCountRef st \<and>
   prevStatusRef (pollAll code fails st) = prevStatusRef st"
proof (induction fails arbitrary: st)
  case Nil
  show ?case by (simp add: pollAll_def)
next
  case (Cons r rs)
  then have "snapshotOf r = None" and "list_all (\<lambda>r. snapshotOf r = None) rs" by simp_all
  with Cons.IH [of "pollTick code st r"] show ?case
    by (simp add: pollAll_Cons pollTick_failed)
qed

text \<open>
  C3. For a lobby read that delivers a snapshot \<open>d\<close>, the "member joined" toasts shown by
  this read are exactly one when the count held before is nonzero and smaller than
  \<open>member_count d\<close>, and none otherwise. That one toast carries the \<open>user_name\<close> of the last
  entry of \<open>members d\<close> (the source interpolates \<^verbatim>\<open>undefined\<close> when the array is empty) and
  the discount of the current tier of the tier engine for the new count. The first read
  of a page that delivers a snapshot, after any number of failed reads since mount, shows
  no such toast.
\<close>

theorem member_joined_once_per_increase:
  assumes code: "truthy code" and snap: "snapshotOf resp = Some d"
  shows "(\<exists>t. currentTier (member_count d) = Some t \<and>
            filter isMemberJoined (emitted st (fetchLobbyData code resp st)) =
              (if 0 < prevMemberCountRef st \<and> prevMemberCountRef st < member_count d
               then [MemberJoined
                       (if members d = [] then None else Some (user_name (last (members d))))
                       (discount t)]
               else [])) \<and>
         (list_all (\<lambda>r. snapshotOf r = None) fails \<longrightarrow>
            filter isMemberJoined
              (toasts (fetchLobbyData code resp (pollAll code fails (mountPage u ls rt)))) = [])"
proof
  obtain t where t: "currentTier (member_count d) = Some t"
      "toastDiscount (member_count d) = discount t"
    using currentTier_total by blast
  have "filter isMemberJoined (emitted st (fetchLobbyData code resp st)) =
          (if 0 < prevMemberCountRef st \<and> prevMemberCountRef st < member_count d
           then [MemberJoined
                   (if members d = [] then None else Some (user_name (last (members d))))
                   (discount t)]
           else [])"
    by (simp add: fetch_emitted_snapshot [OF code snap] t(2) newMemberName_last)
  with t(1) show "\<exists>t. currentTier (member_count d) = Some t \<and>
            filter isMemberJoined (emitted st (fetchLobbyData code resp st)) =
              (if 0 < prevMemberCountRef st \<and> prevMemberCountRef st < member_count d
               then [MemberJoined
                       (if members d = [] then None else Some (user_name (last (members d))))
                       (discount t)]
               else [])"
    by blast
next
  show "list_all (\<lambda>r. snapshotOf r = None) fails \<longrightarrow>
            filter isMemberJoined
              (toasts (fetchLobbyData code resp (pollAll code fails (mountPage u ls rt)))) = []"
  proof
    assume f: "list_all (\<lambda>r. snapshotOf r = None) fails"
    let ?st = "pollAll code fails (mountPage u ls rt)"
    from pollAll_failed [OF f, of code "mountPage u ls rt"]
    have a: "toasts ?st = []" and b: "prevMemberCountRef ?st = 0"
      by (simp_all add: mountPage_def)
    show "filter isMemberJoined (toasts (fetchLobbyData code resp ?st)) = []"
      using a b by (simp add: fetch_snapshot [OF code snap] reconcile_fields)
  qed
qed

lemma truthy_Some [simp]: "truthy (Some c) = (c \<noteq> [])"
  by (simp add: truthy_def)

lemma ACTIVE_keys_distinct [simp]:
  "ACTIVE_LOBBY \<noteq> ACTIVE_BUSINESS_ID" "ACTIVE_BUSINESS_ID \<noteq> ACTIVE_LOBBY"
  by (simp_all add: ACTIVE_LOBBY_def ACTIVE_BUSINESS_ID_def)

lemma reconcile_storage:
  "localStorage (reconcile d st) =
     (if status d = ''OPEN''
      then (localStorage st)(ACTIVE_LOBBY \<mapsto> lobby_code d, ACTIVE_BUSINESS_ID \<mapsto> business_id d)
      else if status d = ''EXPIRED'' \<or> status d = ''CONFIRMED''
      then (localStorage st)(ACTIVE_LOBBY := None, ACTIVE_BUSINESS_ID := None)
      else localStorage st)"
  by (simp add: reconcile_def Let_def)

lemma pollTick_snapshot_storage:
  assumes "truthy code" "snapshotOf resp = Some d"
  shows "localStorage (pollTick code st resp) = localStorage (reconcile d st)"
  using assms
  by (simp add: pollTick_def fetch_snapshot render_def reconcile_fields reconcile_storage
      truthy_def)

lemma pollTick_404_storage:
  assumes "c \<noteq> []"
  shows "localStorage (pollTick (Some c) st (Response 404 body)) =
     (if localStorage st ACTIVE_LOBBY = Some c
      then (localStorage st)(ACTIVE_LOBBY := None, ACTIVE_BUSINESS_ID := None)
      else localStorage st)"
  using assms
  by (simp add: pollTick_def fetchLobbyData_def render_def Let_def)

text \<open>
  C5. After a lobby read for code \<open>c\<close> and the render that follows it: a snapshot with
  status OPEN leaves the pointer at \<open>(lobby_code, business_id)\<close> of the snapshot; a snapshot
  with status EXPIRED or CONFIRMED leaves both pointer keys absent; a 404 removes both
  keys when the stored lobby code is \<open>c\<close> and changes nothing in the storage otherwise.
\<close>

theorem active_lobby_pointer_after_fetch:
  assumes c: "c \<noteq> []"
  shows "(snapshotOf resp = Some d \<and> status d = ''OPEN'' \<longrightarrow>
            localStorage (pollTick (Some c) st resp) ACTIVE_LOBBY = Some (lobby_code d) \<and>
            localStorage (pollTick (Some c) st resp) ACTIVE_BUSINESS_ID = Some (business_id d)) \<and>
         (snapshotOf resp = Some d \<and> (status d = ''EXPIRED'' \<or> status d = ''CONFIRMED'') \<longrightarrow>
            localStorage (pollTick (Some c) st resp) ACTIVE_LOBBY = None \<and>
            localStorage (pollTick (Some c) st resp) ACTIVE_BUSINESS_ID = None) \<and>
         localStorage (pollTick (Some c) st (Response 404 body)) =
           (if localStorage st ACTIVE_LOBBY = Some c
            then (localStorage st)(ACTIVE_LOBBY := None, ACTIVE_BUSINESS_ID := None)
            else localStorage st)"
proof (intro conjI impI)
  assume a: "snapshotOf resp = Some d \<and> status d = ''OPEN''"
  with c have s: "localStorage (pollTick (Some c) st resp) = localStorage (reconcile d st)"
    by (simp add: pollTick_snapshot_storage)
  from a show "localStorage (pollTick (Some c) st resp) ACTIVE_LOBBY = Some (lobby_code d)"
    unfolding s by (simp add: reconcile_storage)
  from a show "localStorage (pollTick (Some c) st resp) ACTIVE_BUSINESS_ID = Some (business_id d)"
    unfolding s by (simp add: reconcile_storage)
next
  assume a: "snapshotOf resp = Some d \<and> (status d = ''EXPIRED'' \<or> status d = ''CONFIRMED'')"
  with c have s: "localStorage (pollTick (Some c) st resp) = localStorage (reconcile d st)"
    by (simp add: pollTick_snapshot_storage)
  from a show "localStorage (pollTick (Some c) st resp) ACTIVE_LOBBY = None"
    unfolding s by (auto simp add: reconcile_storage)
  from a show "localStorage (pollTick (Some c) st resp) ACTIVE_BUSINESS_ID = None"
    unfolding s by (auto simp add: reconcile_storage)
next
  from c show "localStorage (pollTick (Some c) st (Response 404 body)) =
           (if localStorage st ACTIVE_LOBBY = Some c
            then (localStorage st)(ACTIVE_LOBBY := None, ACTIVE_BUSINESS_ID := None)
            else localStorage st)"
    by (rule pollTick_404_storage)
qed

lemma snapshotOf_okResp [simp]: "snapshotOf (okResp d) = Some d"
  by (simp add: okResp_def ok_def)

lemma lobbyWith_fields:
  "status (lobbyWith b s n) = s"
  "member_count (lobbyWith b s n) = n"
  "members (lobbyWith b s n) = take n someMembers"
  "business_id (lobbyWith b s n) = b"
  "lobby_code (lobbyWith b s n) = ''ABC123''"
  by (simp_all add: lobbyWith_def)

theorem member_joined_once_per_increase_witness:
  "truthy (Some ''ABC123'') \<and>
   snapshotOf (okResp (lobbyWith ''1'' ''OPEN'' 4)) = Some (lobbyWith ''1'' ''OPEN'' 4) \<and>
   filter isMemberJoined
     (emitted (pollAll (Some ''ABC123'') [okResp (lobbyWith ''1'' ''OPEN'' 2)] (pageAtMount None None))
        (fetchLobbyData (Some ''ABC123'') (okResp (lobbyWith ''1'' ''OPEN'' 4))
           (pollAll (Some ''ABC123'') [okResp (lobbyWith ''1'' ''OPEN'' 2)] (pageAtMount None None))))
     = [MemberJoined (Some ''Eva'') 20] \<and>
   list_all (\<lambda>r. snapshotOf r = None) [Rejected ''Failed to fetch'', Response 500 (Inl [])] \<and>
   filter isMemberJoined
     (toasts (fetchLobbyData (Some ''ABC123'') (okResp (lobbyWith ''1'' ''OPEN'' 4))
        (pollAll (Some ''ABC123'') [Rejected ''Failed to fetch'', Response 500 (Inl [])]
           (mountPage None Map.empty ''/lobby/ABC123'')))) = []"
proof -
  let ?c = "Some ''ABC123''"
  let ?st = "pollAll ?c [okResp (lobbyWith ''1'' ''OPEN'' 2)] (pageAtMount None None)"
  let ?fails = "[Rejected ''Failed to fetch'', Response 500 (Inl [])]"
  have h1: "truthy ?c" by simp
  have h2: "snapshotOf (okResp (lobbyWith ''1'' ''OPEN'' 4)) = Some (lobbyWith ''1'' ''OPEN'' 4)"
    by simp
  have p: "prevMemberCountRef ?st = 2"
    by (simp add: pollAll_def pollTick_snapshot lobbyWith_fields)
  have f: "list_all (\<lambda>r. snapshotOf r = None) ?fails" by simp
  have t: "currentTier 4 = Some \<lparr>size' = 4, discount = 20, label = ''20% rabatt''\<rparr>"
    by (simp add: currentTier_def currentTierIn_def DISCOUNT_TIERS_def pop_def or_else_def)
  show ?thesis
    using h1 h2 f
      member_joined_once_per_increase [OF h1 h2, of ?st ?fails None Map.empty "''/lobby/ABC123''"]
    by (simp add: p t lobbyWith_fields someMembers_def)
qed

lemma fetch_emitted_failed:
  "snapshotOf resp = None \<Longrightarrow> emitted st (fetchLobbyData code resp st) = []"
  by (simp add: emitted_def fetch_failed)

text \<open>
  C4. Over every sequence of lobby reads, the number of "group locked" toasts shown is the
  number of steps from OPEN to LOCKED in the sequence of statuses held (the status held at
  the start, then the statuses of the snapshots delivered; a failed read keeps the status
  held). A read while the status held is anything other than OPEN shows none; a read that
  delivers LOCKED while the status held is OPEN shows exactly one.
\<close>

theorem group_locked_once_per_edge:
  assumes code: "truthy code"
  shows "count_list (toasts (pollAll code rs st)) GroupLocked =
           count_list (toasts st) GroupLocked + lockedEdges (prevStatusRef st) (statuses rs) \<and>
         (prevStatusRef st \<noteq> ''OPEN'' \<longrightarrow>
            count_list (emitted st (fetchLobbyData code r st)) GroupLocked = 0) \<and>
         (prevStatusRef st = ''OPEN'' \<and> snapshotOf r = Some d \<and> status d = ''LOCKED'' \<longrightarrow>
            count_list (emitted st (fetchLobbyData code r st)) GroupLocked = 1)"
proof (intro conjI impI)
  show "count_list (toasts (pollAll code rs st)) GroupLocked =
           count_list (toasts st) GroupLocked + lockedEdges (prevStatusRef st) (statuses rs)"
    using code by (rule pollAll_locked_count)
next
  assume level: "prevStatusRef st \<noteq> ''OPEN''"
  show "count_list (emitted st (fetchLobbyData code r st)) GroupLocked = 0"
  proof (cases "snapshotOf r")
    case None
    then show ?thesis by (simp add: fetch_emitted_failed)
  next
    case (Some e)
    with code level show ?thesis by (simp add: fetch_emitted_snapshot)
  qed
next
  assume edge: "prevStatusRef st = ''OPEN'' \<and> snapshotOf r = Some d \<and> status d = ''LOCKED''"
  with code show "count_list (emitted st (fetchLobbyData code r st)) GroupLocked = 1"
    by (simp add: fetch_emitted_snapshot)
qed

lemma pollAll_snoc: "pollAll code (rs @ [r]) st = pollTick code (pollAll code rs st) r"
  by (simp add: pollAll_def)

theorem group_locked_once_per_edge_witness:
  "truthy (Some ''ABC123'') \<and>
   count_list (toasts (pollAll (Some ''ABC123'')
      [okResp (lobbyWith ''1'' ''OPEN'' 2), okResp (lobbyWith ''1'' ''LOCKED'' 2),
       okResp (lobbyWith ''1'' ''LOCKED'' 2), Rejected ''Failed to fetch'',
       okResp (lobbyWith ''1'' ''OPEN'' 2), okResp (lobbyWith ''1'' ''LOCKED'' 3)]
      (pageAtMount None None))) GroupLocked = 2 \<and>
   prevStatusRef (pollAll (Some ''ABC123'')
      [okResp (lobbyWith ''1'' ''OPEN'' 2), okResp (lobbyWith ''1'' ''LOCKED'' 2)]
      (pageAtMount None None)) \<noteq> ''OPEN'' \<and>
   count_list (emitted
      (pollAll (Some ''ABC123'')
         [okResp (lobbyWith ''1'' ''OPEN'' 2), okResp (lobbyWith ''1'' ''LOCKED'' 2)]
         (pageAtMount None None))
      (fetchLobbyData (Some ''ABC123'') (okResp (lobbyWith ''1'' ''LOCKED'' 2))
         (pollAll (Some ''ABC123'')
            [okResp (lobbyWith ''1'' ''OPEN'' 2), okResp (lobbyWith ''1'' ''LOCKED'' 2)]
            (pageAtMount None None)))) GroupLocked = 0 \<and>
   prevStatusRef (pollAll (Some ''ABC123'') [okResp (lobbyWith ''1'' ''OPEN'' 2)]
      (pageAtMount None None)) = ''OPEN'' \<and>
   count_list (emitted
      (pollAll (Some ''ABC123'') [okResp (lobbyWith ''1'' ''OPEN'' 2)] (pageAtMount None None))
      (fetchLobbyData (Some ''ABC123'') (okResp (lobbyWith ''1'' ''LOCKED'' 2))
         (pollAll (Some ''ABC123'') [okResp (lobbyWith ''1'' ''OPEN'' 2)]
            (pageAtMount None None)))) GroupLocked = 1"
proof -
  let ?c = "Some ''ABC123''"
  let ?o = "okResp (lobbyWith ''1'' ''OPEN'' 2)"
  let ?l = "okResp (lobbyWith ''1'' ''LOCKED'' 2)"
  let ?m = "pageAtMount None None"
  have h: "truthy ?c" by simp
  have m: "toasts ?m = []" "prevStatusRef ?m = []"
    by (simp_all add: pageAtMount_def mountPage_def)
  have p1: "prevStatusRef (pollAll ?c [?o] ?m) = ''OPEN''"
    using pollAll_snoc [of ?c "[]" ?o ?m]
    by (simp add: pollTick_snapshot lobbyWith_fields)
  have p2: "prevStatusRef (pollAll ?c [?o, ?l] ?m) = ''LOCKED''"
    using pollAll_snoc [of ?c "[?o]" ?l ?m]
    by (simp add: pollTick_snapshot lobbyWith_fields)
  show ?thesis
    using h
      group_locked_once_per_edge [OF h,
        of "[?o, ?l, ?l, Rejected ''Failed to fetch'', ?o, okResp (lobbyWith ''1'' ''LOCKED'' 3)]"
           ?m]
      group_locked_once_per_edge [OF h, of "[]" "pollAll ?c [?o, ?l] ?m" ?l]
      group_locked_once_per_edge [OF h, of "[]" "pollAll ?c [?o] ?m" ?l "lobbyWith ''1'' ''LOCKED'' 2"]
    by (simp add: m p1 p2 lobbyWith_fields)
qed

theorem active_lobby_pointer_after_fetch_witness:
  "''ABC123'' \<noteq> [] \<and>
   snapshotOf (okResp (lobbyWith ''1'' ''OPEN'' 2)) = Some (lobbyWith ''1'' ''OPEN'' 2) \<and>
   status (lobbyWith ''1'' ''OPEN'' 2) = ''OPEN'' \<and>
   localStorage (pollTick (Some ''ABC123'') (pageAtMount None None)
      (okResp (lobbyWith ''1'' ''OPEN'' 2))) ACTIVE_LOBBY = Some ''ABC123'' \<and>
   localStorage (pollTick (Some ''ABC123'') (pageAtMount None None)
      (okResp (lobbyWith ''1'' ''OPEN'' 2))) ACTIVE_BUSINESS_ID = Some ''1'' \<and>
   snapshotOf (okResp (lobbyWith ''1'' ''EXPIRED'' 2)) = Some (lobbyWith ''1'' ''EXPIRED'' 2) \<and>
   status (lobbyWith ''1'' ''EXPIRED'' 2) = ''EXPIRED'' \<and>
   localStorage (pollTick (Some ''ABC123'') (pageAtMount None (Some ''ABC123''))
      (okResp (lobbyWith ''1'' ''EXPIRED'' 2))) ACTIVE_LOBBY = None \<and>
   localStorage (pollTick (Some ''ABC123'') (pageAtMount None (Some ''ABC123''))
      (okResp (lobbyWith ''1'' ''EXPIRED'' 2))) ACTIVE_BUSINESS_ID = None \<and>
   localStorage (pollTick (Some ''ABC123'') (pageAtMount None (Some ''ABC123''))
      (Response 404 (Inl []))) ACTIVE_LOBBY = None \<and>
   localStorage (pollTick (Some ''ABC123'') (pageAtMount None (Some ''XYZ789''))
      (Response 404 (Inl []))) ACTIVE_LOBBY = Some ''XYZ789''"
proof -
  have h: "''ABC123'' \<noteq> []" by simp
  show ?thesis
    using h
      active_lobby_pointer_after_fetch [OF h, of "okResp (lobbyWith ''1'' ''OPEN'' 2)"
        "lobbyWith ''1'' ''OPEN'' 2" "pageAtMount None None"]
      active_lobby_pointer_after_fetch [OF h, of "okResp (lobbyWith ''1'' ''EXPIRED'' 2)"
        "lobbyWith ''1'' ''EXPIRED'' 2" "pageAtMount None (Some ''ABC123'')"]
      active_lobby_pointer_after_fetch [OF h, of "Rejected []" "lobbyWith ''1'' ''OPEN'' 2"
        "pageAtMount None (Some ''ABC123'')" "Inl []"]
      active_lobby_pointer_after_fetch [OF h, of "Rejected []" "lobbyWith ''1'' ''OPEN'' 2"
        "pageAtMount None (Some ''XYZ789'')" "Inl []"]
    by (simp add: lobbyWith_fields pageAtMount_def mountPage_def)
qed

section \<open>View-state gate, join and leave: properties\<close>

lemma fetch_isLoading: "truthy code \<Longrightarrow> isLoading (fetchLobbyData code resp st) = False"
  by (simp add: fetchLobbyData_def Let_def)

lemma fetch_error_message:
  "truthy code \<Longrightarrow> snapshotOf resp = None \<Longrightarrow>
   error (fetchLobbyData code resp st) = Some ''Lobbyen ble ikke funnet.'' \<or>
   error (fetchLobbyData code resp st) = Some ''Kunne ikke koble til serveren.''"
  by (cases resp rule: snapshotOf.cases;
      simp add: fetchLobbyData_def fetchCaught_def Let_def split: if_splits)

lemma fetch_error_failed:
  assumes "truthy code" and "snapshotOf resp = None"
  shows "truthy (error (fetchLobbyData code resp st))"
proof -
  from assms have "error (fetchLobbyData code resp st) = Some ''Lobbyen ble ikke funnet.'' \<or>
      error (fetchLobbyData code resp st) = Some ''Kunne ikke koble til serveren.''"
    by (rule fetch_error_message)
  then show ?thesis
  proof
    assume "error (fetchLobbyData code resp st) = Some ''Lobbyen ble ikke funnet.''"
    then show ?thesis by (simp add: truthy_def)
  next
    assume "error (fetchLobbyData code resp st) = Some ''Kunne ikke koble til serveren.''"
    then show ?thesis by (simp add: truthy_def)
  qed
qed

lemma fetch_error_snapshot:
  "truthy code \<Longrightarrow> snapshotOf resp = Some d \<Longrightarrow> error (fetchLobbyData code resp st) = None"
  by (simp add: fetch_snapshot reconcile_fields)

lemma truthy_None [simp]: "\<not> truthy None"
  by (simp add: truthy_def)

lemma fetch_error:
  "truthy code \<Longrightarrow> truthy (error (fetchLobbyData code resp st)) = (snapshotOf resp = None)"
  by (cases "snapshotOf resp") (simp_all add: fetch_error_failed fetch_error_snapshot)

lemma isUserInLobby_iff:
  "isUserInLobby u l = (\<exists>v. u = Some v \<and> name v \<in> user_name ` set (members l))"
  by (cases u) (force simp: isUserInLobby_def list_ex_iff)+

lemma businessCard_empty:
  "(businessCard l = EmptyLobbyState) = (getBusinessById (business_id l) = None)"
  by (simp add: businessCard_def split: option.splits)

text \<open>
  C2. The screen of a render, by first match. The page is loading from mount until a
  lobby read completes, and a completed read leaves an error exactly when it delivered no
  snapshot. Then: loading gives the loading screen; otherwise an error or no lobby gives
  the not-found screen; otherwise no identity, or an identity whose name is the
  \<open>user_name\<close> of no member, together with \<open>hasJoined\<close> false, gives the join gate;
  otherwise status CONFIRMED gives the confirmed screen; otherwise the normal screen,
  whose business panel is the empty-lobby call to action exactly when \<open>business_id\<close>
  resolves to no business.
\<close>

theorem view_state_gate:
  "isLoading (mountPage u ls rt) \<and>
   (truthy code \<longrightarrow>
      \<not> isLoading (fetchLobbyData code resp st0) \<and>
      truthy (error (fetchLobbyData code resp st0)) = (snapshotOf resp = None)) \<and>
   (isLoading st \<longrightarrow> fst (render code st) = LoadingScreen) \<and>
   (\<not> isLoading st \<and> (truthy (error st) \<or> lobby st = None) \<longrightarrow>
      fst (render code st) = NotFoundScreen) \<and>
   (\<not> isLoading st \<and> \<not> truthy (error st) \<and> lobby st = Some l \<and>
    (user st = None \<or> (\<exists>v. user st = Some v \<and> name v \<notin> user_name ` set (members l))) \<and>
    \<not> hasJoined st \<longrightarrow>
      fst (render code st) =
        JoinGateScreen
          \<lparr>lobbyCode = code, leaderName = leader_name l,
           businessName = map_option bname (getBusinessById (business_id l)),
           isLoggedIn = (user st \<noteq> None), userName = map_option name (user st)\<rparr>) \<and>
   (\<not> isLoading st \<and> \<not> truthy (error st) \<and> lobby st = Some l \<and>
    ((\<exists>v. user st = Some v \<and> name v \<in> user_name ` set (members l)) \<or> hasJoined st) \<and>
    status l = ''CONFIRMED'' \<longrightarrow>
      fst (render code st) = ConfirmedScreen (member_count l) (currentTier (member_count l))) \<and>
   (\<not> isLoading st \<and> \<not> truthy (error st) \<and> lobby st = Some l \<and>
    ((\<exists>v. user st = Some v \<and> name v \<in> user_name ` set (members l)) \<or> hasJoined st) \<and>
    status l \<noteq> ''CONFIRMED'' \<longrightarrow>
      fst (render code st) = NormalScreen (businessCard l) \<and>
      (businessCard l = EmptyLobbyState) = (getBusinessById (business_id l) = None))"
proof (intro conjI impI)
  show "isLoading (mountPage u ls rt)" by (simp add: mountPage_def)
next
  assume "truthy code"
  then show "\<not> isLoading (fetchLobbyData code resp st0)" by (simp add: fetch_isLoading)
next
  assume "truthy code"
  then show "truthy (error (fetchLobbyData code resp st0)) = (snapshotOf resp = None)"
    by (rule fetch_error)
next
  assume "isLoading st"
  then show "fst (render code st) = LoadingScreen" by (simp add: render_def)
next
  assume "\<not> isLoading st \<and> (truthy (error st) \<or> lobby st = None)"
  then show "fst (render code st) = NotFoundScreen" by (auto simp: render_def)
next
  assume a: "\<not> isLoading st \<and> \<not> truthy (error st) \<and> lobby st = Some l \<and>
    (user st = None \<or> (\<exists>v. user st = Some v \<and> name v \<notin> user_name ` set (members l))) \<and>
    \<not> hasJoined st"
  then have "\<not> isUserInLobby (user st) l" by (auto simp: isUserInLobby_iff)
  with a show "fst (render code st) =
        JoinGateScreen
          \<lparr>lobbyCode = code, leaderName = leader_name l,
           businessName = map_option bname (getBusinessById (business_id l)),
           isLoggedIn = (user st \<noteq> None), userName = map_option name (user st)\<rparr>"
    by (simp add: render_def)
next
  assume a: "\<not> isLoading st \<and> \<not> truthy (error st) \<and> lobby st = Some l \<and>
    ((\<exists>v. user st = Some v \<and> name v \<in> user_name ` set (members l)) \<or> hasJoined st) \<and>
    status l = ''CONFIRMED''"
  then have "isUserInLobby (user st) l \<or> hasJoined st" by (auto simp: isUserInLobby_iff)
  with a show "fst (render code st) =
      ConfirmedScreen (member_count l) (currentTier (member_count l))"
    by (auto simp: render_def)
next
  assume a: "\<not> isLoading st \<and> \<not> truthy (error st) \<and> lobby st = Some l \<and>
    ((\<exists>v. user st = Some v \<and> name v \<in> user_name ` set (members l)) \<or> hasJoined st) \<and>
    status l \<noteq> ''CONFIRMED''"
  then have "isUserInLobby (user st) l \<or> hasJoined st" by (auto simp: isUserInLobby_iff)
  with a show "fst (render code st) = NormalScreen (businessCard l)"
    by (auto simp: render_def)
next
  show "(businessCard l = EmptyLobbyState) = (getBusinessById (business_id l) = None)"
    by (rule businessCard_empty)
qed

lemma fetch_keeps:
  "user (fetchLobbyData code resp st) = user st"
  "hasJoined (fetchLobbyData code resp st) = hasJoined st"
  by (simp_all add: fetchLobbyData_def fetchCaught_def reconcile_def Let_def
      split: response.splits sum.splits)

lemma pageAtMount_fields:
  "isLoading (pageAtMount u p)"
  "user (pageAtMount u p) = u"
  "\<not> hasJoined (pageAtMount u p)"
  "lobby (pageAtMount u p) = None"
  "requests (pageAtMount u p) = []"
  "toasts (pageAtMount u p) = []"
  by (simp_all add: pageAtMount_def mountPage_def)

lemma pageAfter_snapshot:
  assumes "snapshotOf resp = Some d"
  shows "\<not> isLoading (pageAfter u p resp)"
    and "\<not> truthy (error (pageAfter u p resp))"
    and "lobby (pageAfter u p resp) = Some d"
    and "user (pageAfter u p resp) = u"
    and "\<not> hasJoined (pageAfter u p resp)"
proof -
  show "\<not> isLoading (pageAfter u p resp)"
    by (simp add: pageAfter_def fetch_isLoading)
  show "\<not> truthy (error (pageAfter u p resp))"
    using assms by (simp add: pageAfter_def fetch_error)
  show "lobby (pageAfter u p resp) = Some d"
    using assms by (simp add: pageAfter_def fetch_snapshot reconcile_fields)
  show "user (pageAfter u p resp) = u"
    by (simp add: pageAfter_def fetch_keeps pageAtMount_fields)
  show "\<not> hasJoined (pageAfter u p resp)"
    by (simp add: pageAfter_def fetch_keeps pageAtMount_fields)
qed

lemma pageAfter_failed:
  assumes "snapshotOf resp = None"
  shows "\<not> isLoading (pageAfter u p resp)"
    and "truthy (error (pageAfter u p resp))"
  using assms
  by (simp_all add: pageAfter_def fetch_isLoading fetch_error)

lemma take_someMembers_2:
  "take 2 someMembers =
     [\<lparr>user_name = ''Kari'', is_ready = True\<rparr>, \<lparr>user_name = ''Per'', is_ready = False\<rparr>]"
  by (simp add: someMembers_def)

lemma currentTier_2: "currentTier 2 = Some \<lparr>size' = 2, discount = 0, label = ''Standard''\<rparr>"
  by (simp add: currentTier_def currentTierIn_def DISCOUNT_TIERS_def pop_def or_else_def)

lemma getBusinessById_1: "map_option bname (getBusinessById ''1'') = Some ''Strike Zone Bowling''"
  by (simp add: getBusinessById_def MOCK_BUSINESSES_def)

lemma getBusinessById_empty: "getBusinessById [] = None"
  by (simp add: getBusinessById_def MOCK_BUSINESSES_def)

theorem view_state_gate_witness:
  "isLoading (pageAtMount None None) \<and>
   fst (render (Some ''ABC123'') (pageAtMount None None)) = LoadingScreen \<and>
   truthy (error (pageAfter None None (Response 404 (Inl [])))) \<and>
   fst (render (Some ''ABC123'') (pageAfter None None (Response 404 (Inl [])))) = NotFoundScreen \<and>
   user (pageAfter None None (okResp (lobbyWith ''1'' ''OPEN'' 2))) = None \<and>
   fst (render (Some ''ABC123'') (pageAfter None None (okResp (lobbyWith ''1'' ''OPEN'' 2)))) =
     JoinGateScreen
       \<lparr>lobbyCode = Some ''ABC123'', leaderName = ''Kari'',
        businessName = Some ''Strike Zone Bowling'', isLoggedIn = False, userName = None\<rparr> \<and>
   user (pageAfter (Some kari) None (okResp (lobbyWith ''1'' ''CONFIRMED'' 2))) = Some kari \<and>
   fst (render (Some ''ABC123'')
          (pageAfter (Some kari) None (okResp (lobbyWith ''1'' ''CONFIRMED'' 2)))) =
     ConfirmedScreen 2 (Some \<lparr>size' = 2, discount = 0, label = ''Standard''\<rparr>) \<and>
   fst (render (Some ''ABC123'')
          (pageAfter (Some kari) None (okResp (lobbyWith [] ''OPEN'' 2)))) =
     NormalScreen EmptyLobbyState"
proof -
  let ?c = "Some ''ABC123''"
  let ?nf = "pageAfter None None (Response 404 (Inl []))"
  let ?jd = "lobbyWith ''1'' ''OPEN'' 2"
  let ?j = "pageAfter None None (okResp ?jd)"
  let ?cd = "lobbyWith ''1'' ''CONFIRMED'' 2"
  let ?cf = "pageAfter (Some kari) None (okResp ?cd)"
  let ?nd = "lobbyWith [] ''OPEN'' 2"
  let ?n = "pageAfter (Some kari) None (okResp ?nd)"
  have kari_in: "name kari \<in> user_name ` set (take 2 someMembers)"
    by (simp add: take_someMembers_2 kari_def)
  have s: "snapshotOf (Response 404 (Inl [])) = None" by simp
  note g1 = view_state_gate [of None Map.empty "''/lobby/ABC123''" ?c "Rejected []"
      "pageAtMount None None" "pageAtMount None None" ?jd]
  note g2 = view_state_gate [of None Map.empty "''/lobby/ABC123''" ?c "Rejected []"
      "pageAtMount None None" ?nf ?jd]
  note g3 = view_state_gate [of None Map.empty "''/lobby/ABC123''" ?c "Rejected []"
      "pageAtMount None None" ?j ?jd]
  note g4 = view_state_gate [of None Map.empty "''/lobby/ABC123''" ?c "Rejected []"
      "pageAtMount None None" ?cf ?cd]
  note g5 = view_state_gate [of None Map.empty "''/lobby/ABC123''" ?c "Rejected []"
      "pageAtMount None None" ?n ?nd]
  have 1: "fst (render ?c (pageAtMount None None)) = LoadingScreen"
    using g1 by (simp add: pageAtMount_fields)
  have 2: "fst (render ?c ?nf) = NotFoundScreen"
    using g2 by (simp add: pageAfter_failed [OF s])
  have 3: "fst (render ?c ?j) = JoinGateScreen
       \<lparr>lobbyCode = Some ''ABC123'', leaderName = ''Kari'',
        businessName = Some ''Strike Zone Bowling'', isLoggedIn = False, userName = None\<rparr>"
    using g3 by (simp add: pageAfter_snapshot lobbyWith_def getBusinessById_1)
  have 4: "fst (render ?c ?cf) =
      ConfirmedScreen 2 (Some \<lparr>size' = 2, discount = 0, label = ''Standard''\<rparr>)"
    using g4 kari_in by (simp add: pageAfter_snapshot lobbyWith_fields currentTier_2)
  have 5: "fst (render ?c ?n) = NormalScreen EmptyLobbyState"
    using g5 kari_in by (simp add: pageAfter_snapshot lobbyWith_fields getBusinessById_empty)
  show ?thesis
    using 1 2 3 4 5
    by (simp add: pageAtMount_fields pageAfter_failed [OF s] pageAfter_snapshot)
qed

text \<open>
  C8. A first lobby read answered 404 and one that fails to reach the server set two
  different messages in \<open>error\<close>, and both render the same not-found screen; the
  unreachable server removes the stored pointer as the 404 does.
\<close>

theorem not_found_and_unreachable_render_alike:
  "error (pageAfter (Some kari) (Some ''ABC123'') (Response 404 (Inl []))) =
     Some ''Lobbyen ble ikke funnet.'' \<and>
   error (pageAfter (Some kari) (Some ''ABC123'') (Rejected ''Failed to fetch'')) =
     Some ''Kunne ikke koble til serveren.'' \<and>
   fst (render (Some ''ABC123'')
          (pageAfter (Some kari) (Some ''ABC123'') (Response 404 (Inl [])))) = NotFoundScreen \<and>
   fst (render (Some ''ABC123'')
          (pageAfter (Some kari) (Some ''ABC123'') (Rejected ''Failed to fetch''))) = NotFoundScreen \<and>
   localStorage (snd (render (Some ''ABC123'')
          (pageAfter (Some kari) (Some ''ABC123'') (Rejected ''Failed to fetch'')))) ACTIVE_LOBBY = None"
  by (simp add: pageAfter_def pageAtMount_def mountPage_def fetchLobbyData_def fetchCaught_def
      render_def Let_def)

text \<open>
  C10. Leaving the group after confirming removes the two active-lobby keys and nothing
  else from the storage (the guest identity under \<open>groupie_user\<close> and the identity in
  memory stay), shows one toast, navigates to the home route and sends no request, so
  any server, whatever a request does to it, stays in its state; declining the prompt
  changes nothing.
\<close>

theorem leave_group_frame:
  "localStorage (leaveGroup True st) ACTIVE_LOBBY = None \<and>
   localStorage (leaveGroup True st) ACTIVE_BUSINESS_ID = None \<and>
   localStorage (leaveGroup True st) |` (- {ACTIVE_LOBBY, ACTIVE_BUSINESS_ID}) =
     localStorage st |` (- {ACTIVE_LOBBY, ACTIVE_BUSINESS_ID}) \<and>
   localStorage (leaveGroup True st) STORAGE_KEY = localStorage st STORAGE_KEY \<and>
   user (leaveGroup True st) = user st \<and>
   route (leaveGroup True st) = ''/'' \<and>
   emitted st (leaveGroup True st) = [LeftGroup] \<and>
   sent st (leaveGroup True st) = [] \<and>
   foldl server srv (sent st (leaveGroup True st)) = srv \<and>
   lobby (leaveGroup True st) = lobby st \<and>
   leaveGroup False st = st"
  by (auto simp: leaveGroup_def sent_def emitted_def restrict_map_def
      ACTIVE_LOBBY_def ACTIVE_BUSINESS_ID_def STORAGE_KEY_def)














section \<open>Countdown: properties\<close>

lemma calculateRemaining_fields:
  "timeRemaining (calculateRemaining e c now st) = max 0 ((e - now) div 1000)"
  "isExpired (calculateRemaining e c now st) = (isExpired st \<or> (reachesZero e now \<and> \<not> c))"
  "onExpiredCalls (calculateRemaining e c now st) =
     onExpiredCalls st + (if reachesZero e now \<and> \<not> c then 1 else 0)"
  by (auto simp add: calculateRemaining_def reachesZero_def Let_def)

lemma rerunEffect_fields:
  "timeRemaining (rerunEffect e now b st) =
     (if isExpired st \<noteq> b then max 0 ((e - now) div 1000) else timeRemaining st)"
  "isExpired (rerunEffect e now b st) = (isExpired st \<or> (b \<and> reachesZero e now))"
  "onExpiredCalls (rerunEffect e now b st) =
     onExpiredCalls st + (if isExpired st \<noteq> b \<and> reachesZero e now \<and> \<not> isExpired st then 1 else 0)"
  by (auto simp add: rerunEffect_def calculateRemaining_fields)

lemma countdownTick_fields:
  "timeRemaining (countdownTick e st now) = max 0 ((e - now) div 1000)"
  "isExpired (countdownTick e st now) = (isExpired st \<or> reachesZero e now)"
  "onExpiredCalls (countdownTick e st now) =
     onExpiredCalls st + (if reachesZero e now \<and> \<not> isExpired st then 1 else 0)"
  by (auto simp add: countdownTick_def rerunEffect_fields calculateRemaining_fields)

lemma countdownMount_fields:
  "timeRemaining (countdownMount e now) = max 0 ((e - now) div 1000)"
  "isExpired (countdownMount e now) = reachesZero e now"
  "onExpiredCalls (countdownMount e now) = (if reachesZero e now then 1 else 0)"
  by (auto simp add: countdownMount_def mountCountdown_def rerunEffect_fields
      calculateRemaining_fields)

lemma countdownRun_snoc:
  "countdownRun e t0 (ts @ [t]) = countdownTick e (countdownRun e t0 ts) t"
  by (simp add: countdownRun_def)

lemma countdownRun_Nil: "countdownRun e t0 [] = countdownMount e t0"
  by (simp add: countdownRun_def)

lemma countdownRun_fields:
  "timeRemaining (countdownRun e t0 ts) = max 0 ((e - last (t0 # ts)) div 1000) \<and>
   isExpired (countdownRun e t0 ts) = list_ex (reachesZero e) (t0 # ts) \<and>
   onExpiredCalls (countdownRun e t0 ts) = (if list_ex (reachesZero e) (t0 # ts) then 1 else 0)"
proof (induction ts rule: rev_induct)
  case Nil
  show ?case by (simp add: countdownRun_Nil countdownMount_fields)
next
  case (snoc t ts)
  then show ?case
    by (auto simp add: countdownRun_snoc countdownTick_fields)
qed

lemma past_reachesZero: "e \<le> now \<Longrightarrow> reachesZero e now"
  by (simp add: reachesZero_def) 

text \<open>
  C7. A countdown mounted at time \<open>t0\<close> and ticked at the times \<open>ts\<close> (any times: the
  interval, and every further run of the effect). After each step the remaining seconds
  are \<open>max 0 ((expires - now) div 1000)\<close> for the time of that step, never negative. The
  number of \<^verbatim>\<open>onExpired\<close> calls is 1 if some step so far computed zero and 0 otherwise:
  the call happens at the first step that computes zero and at no later one. The expired
  badge is shown exactly from that step on, so no time is shown once the expiry has
  passed. Mounted with an expiry that has passed, the countdown shows the badge after
  its mount effect and has called \<^verbatim>\<open>onExpired\<close> once, and still once after any ticks. The
  render before the mount effect shows 00:00.
\<close>

theorem countdown_clamped_and_fires_once:
  "timeRemaining (countdownRun e t0 ts) = max 0 ((e - last (t0 # ts)) div 1000) \<and>
   0 \<le> timeRemaining (countdownRun e t0 ts) \<and>
   onExpiredCalls (countdownRun e t0 ts) = (if list_ex (reachesZero e) (t0 # ts) then 1 else 0) \<and>
   (countdownView (countdownRun e t0 ts) = ExpiredBadge) = list_ex (reachesZero e) (t0 # ts) \<and>
   (\<not> list_ex (reachesZero e) (t0 # ts) \<and> reachesZero e t \<longrightarrow>
      onExpiredCalls (countdownRun e t0 ts) = 0 \<and>
      onExpiredCalls (countdownRun e t0 (ts @ [t])) = 1 \<and>
      onExpiredCalls (countdownRun e t0 (ts @ t # later)) = 1) \<and>
   (e \<le> last (t0 # ts) \<longrightarrow> countdownView (countdownRun e t0 ts) = ExpiredBadge) \<and>
   (e \<le> t0 \<longrightarrow>
      countdownView (countdownMount e t0) = ExpiredBadge \<and>
      onExpiredCalls (countdownMount e t0) = 1 \<and>
      countdownView (countdownRun e t0 ts) = ExpiredBadge \<and>
      onExpiredCalls (countdownRun e t0 ts) = 1) \<and>
   countdownView mountCountdown = Clock 0 0 True"
proof (intro conjI impI)
  note f = countdownRun_fields [of e t0 ts]
  show "timeRemaining (countdownRun e t0 ts) = max 0 ((e - last (t0 # ts)) div 1000)"
    using f by blast
  then show "0 \<le> timeRemaining (countdownRun e t0 ts)" by simp
  show c: "onExpiredCalls (countdownRun e t0 ts) =
      (if list_ex (reachesZero e) (t0 # ts) then 1 else 0)"
    using f by blast
  show v: "(countdownView (countdownRun e t0 ts) = ExpiredBadge) =
      list_ex (reachesZero e) (t0 # ts)"
    using f by (simp add: countdownView_def)
  show "countdownView mountCountdown = Clock 0 0 True"
    by (simp add: countdownView_def mountCountdown_def)
  {
    assume past: "e \<le> last (t0 # ts)"
    have "last (t0 # ts) \<in> set (t0 # ts)" by (rule last_in_set) simp
    with past have "list_ex (reachesZero e) (t0 # ts)"
      unfolding list_ex_iff using past_reachesZero by blast
    with v show "countdownView (countdownRun e t0 ts) = ExpiredBadge" by simp
  }
  {
    assume past: "e \<le> t0"
    then have z: "reachesZero e t0" by (rule past_reachesZero)
    then show "countdownView (countdownMount e t0) = ExpiredBadge"
      by (simp add: countdownView_def countdownMount_fields)
    from z show "onExpiredCalls (countdownMount e t0) = 1"
      by (simp add: countdownMount_fields)
    from z v show "countdownView (countdownRun e t0 ts) = ExpiredBadge" by simp
    from z c show "onExpiredCalls (countdownRun e t0 ts) = 1" by simp
  }
  {
    assume a: "\<not> list_ex (reachesZero e) (t0 # ts) \<and> reachesZero e t"
    with c show "onExpiredCalls (countdownRun e t0 ts) = 0" by simp
    from a show "onExpiredCalls (countdownRun e t0 (ts @ [t])) = 1"
      using countdownRun_fields [of e t0 "ts @ [t]"] by simp
    from a show "onExpiredCalls (countdownRun e t0 (ts @ t # later)) = 1"
      using countdownRun_fields [of e t0 "ts @ t # later"] by simp
  }
qed

theorem countdown_clamped_and_fires_once_witness:
  "\<not> list_ex (reachesZero 10000)
       (0 # [1000, 2000, 3000, 4000, 5000, 6000, 7000, 8000, 9000]) \<and>
   reachesZero 10000 10000 \<and>
   onExpiredCalls (countdownRun 10000 0
      [1000, 2000, 3000, 4000, 5000, 6000, 7000, 8000, 9000]) = 0 \<and>
   onExpiredCalls (countdownRun 10000 0
      ([1000, 2000, 3000, 4000, 5000, 6000, 7000, 8000, 9000] @ [10000])) = 1 \<and>
   onExpiredCalls (countdownRun 10000 0
      ([1000, 2000, 3000, 4000, 5000, 6000, 7000, 8000, 9000] @ 10000 # [11000])) = 1 \<and>
   timeRemaining (countdownRun 10000 0 [1000, 2000, 3000]) = 7 \<and>
   (10000 :: int) \<le> last (0 # [5000, 11000]) \<and>
   countdownView (countdownRun 10000 0 [5000, 11000]) = ExpiredBadge \<and>
   (10000 :: int) \<le> 20000 \<and>
   countdownView (countdownMount 10000 20000) = ExpiredBadge \<and>
   onExpiredCalls (countdownMount 10000 20000) = 1 \<and>
   onExpiredCalls (countdownRun 10000 20000 [21000, 22000]) = 1"
proof -
  let ?ts = "[1000, 2000, 3000, 4000, 5000, 6000, 7000, 8000, 9000] :: int list"
  have a: "\<not> list_ex (reachesZero 10000) (0 # ?ts)"
    by (simp add: reachesZero_def)
  have b: "reachesZero 10000 10000"
    by (simp add: reachesZero_def)
  show ?thesis
    using a b
      countdown_clamped_and_fires_once [of 10000 0 ?ts 10000 "[11000]"]
      countdown_clamped_and_fires_once [of 10000 0 "[1000, 2000, 3000]" 0 "[]"]
      countdown_clamped_and_fires_once [of 10000 0 "[5000, 11000]" 0 "[]"]
      countdown_clamped_and_fires_once [of 10000 20000 "[21000, 22000]" 0 "[]"]
    by simp
qed

end
